theory Spec2Isabelle
  imports Complex_Main "HOL-Library.Sublist"
begin

section \<open>The request-handling gateway of functions/api.ts\<close>

subsection \<open>JavaScript values\<close>

text \<open>
  The values that flow through the gateway are the results of \<open>JSON.parse\<close>, the fields
  read from them (a missing field reads as \<open>undefined\<close>), what the handlers build from
  them, and whatever a failed call throws. An object is an association list; the first
  binding of a name is the one a property read finds. Numbers are finite and exact
  (counters stay below \<open>2^53\<close>). A string is the UTF-8 encoding of its text.
\<close>

datatype js_value =
    Undefined
  | Null
  | Bool bool
  | Num rat
  | Str string
  | Arr "js_value list"
  | Obj "(string \<times> js_value) list"

text \<open>JavaScript truthiness, as used by \<open>if (cached)\<close>, \<open>||\<close> and \<open>!\<close>.\<close>

fun truthy :: "js_value \<Rightarrow> bool" where
  "truthy Undefined = False"
| "truthy Null = False"
| "truthy (Bool b) = b"
| "truthy (Num r) = (r \<noteq> 0)"
| "truthy (Str s) = (s \<noteq> [])"
| "truthy (Arr xs) = True"
| "truthy (Obj fs) = True"

fun nullish :: "js_value \<Rightarrow> bool" where
  "nullish Undefined = True"
| "nullish Null = True"
| "nullish v = False"

text \<open>
  Reading a property that is none of the built-in ones (\<open>action\<close>, \<open>payload\<close>, \<open>words\<close>,
  \<open>message\<close>, \<open>status\<close>, ...) of a value that is neither \<open>null\<close> nor \<open>undefined\<close>: only
  an object can have it.
\<close>

fun get_prop :: "js_value \<Rightarrow> string \<Rightarrow> js_value" where
  "get_prop (Obj fs) name = (case map_of fs name of Some v \<Rightarrow> v | None \<Rightarrow> Undefined)"
| "get_prop v name = Undefined"

text \<open>
  The optional chain: \<open>v?.name\<close>, and \<open>v?.[0]?.name\<close> in one step (the first unit of a
  string has no such property, and neither has a number or a boolean).
\<close>

definition opt_prop :: "js_value \<Rightarrow> string \<Rightarrow> js_value" where
  "opt_prop v name = (if nullish v then Undefined else get_prop v name)"

fun opt_first_prop :: "js_value \<Rightarrow> string \<Rightarrow> js_value" where
  "opt_first_prop (Arr xs) name = (case xs of [] \<Rightarrow> Undefined | x # _ \<Rightarrow> opt_prop x name)"
| "opt_first_prop (Obj fs) name = opt_prop (get_prop (Obj fs) ''0'') name"
| "opt_first_prop v name = Undefined"

subsection \<open>Strings\<close>

text \<open>
  \<open>String.prototype.includes\<close>: the pattern occurs somewhere in the string.
\<close>

fun str_includes :: "string \<Rightarrow> string \<Rightarrow> bool" where
  "str_includes [] pat = (pat = [])"
| "str_includes (c # cs) pat = (prefix pat (c # cs) \<or> str_includes cs pat)"

text \<open>The code points of a UTF-8 text, and the encoding of code points.\<close>

definition cont :: "char \<Rightarrow> nat" where
  "cont c = of_char c - 0x80"

fun utf8_decode :: "string \<Rightarrow> nat list" where
  "utf8_decode [] = []"
| "utf8_decode (c # cs) =
     (if (of_char c :: nat) < 0x80 then of_char c # utf8_decode cs
      else if (of_char c :: nat) < 0xE0 then
        (case cs of
           d # ds \<Rightarrow> ((of_char c - 0xC0) * 64 + cont d) # utf8_decode ds
         | [] \<Rightarrow> [of_char c])
      else if (of_char c :: nat) < 0xF0 then
        (case cs of
           d # e # es \<Rightarrow> ((of_char c - 0xE0) * 4096 + cont d * 64 + cont e) # utf8_decode es
         | _ \<Rightarrow> [of_char c])
      else
        (case cs of
           d # e # f # fs \<Rightarrow>
             ((of_char c - 0xF0) * 262144 + cont d * 4096 + cont e * 64 + cont f) # utf8_decode fs
         | _ \<Rightarrow> [of_char c]))"

definition utf8_encode1 :: "nat \<Rightarrow> string" where
  "utf8_encode1 n =
     (if n < 0x80 then [char_of n]
      else if n < 0x800 then [char_of (0xC0 + n div 64), char_of (0x80 + n mod 64)]
      else if n < 0x10000 then
        [char_of (0xE0 + n div 4096), char_of (0x80 + n div 64 mod 64), char_of (0x80 + n mod 64)]
      else
        [char_of (0xF0 + n div 262144), char_of (0x80 + n div 4096 mod 64),
         char_of (0x80 + n div 64 mod 64), char_of (0x80 + n mod 64)])"

definition utf8_encode :: "nat list \<Rightarrow> string" where
  "utf8_encode ns = concat (map utf8_encode1 ns)"

text \<open>
  \<open>String.prototype.trim\<close> strips the white space and line terminators of ECMAScript
  from both ends: U+0009 to U+000D, U+0020, U+00A0, U+1680, U+2000 to U+200A, U+2028,
  U+2029, U+202F, U+205F, U+3000 and U+FEFF, here in their encodings.
\<close>

definition white_space :: "string list" where
  "white_space =
     [[CHR 0x09], [CHR 0x0A], [CHR 0x0B], [CHR 0x0C], [CHR 0x0D], [CHR 0x20],
      [CHR 0xC2, CHR 0xA0], [CHR 0xE1, CHR 0x9A, CHR 0x80],
      [CHR 0xE2, CHR 0x80, CHR 0x80], [CHR 0xE2, CHR 0x80, CHR 0x81],
      [CHR 0xE2, CHR 0x80, CHR 0x82], [CHR 0xE2, CHR 0x80, CHR 0x83],
      [CHR 0xE2, CHR 0x80, CHR 0x84], [CHR 0xE2, CHR 0x80, CHR 0x85],
      [CHR 0xE2, CHR 0x80, CHR 0x86], [CHR 0xE2, CHR 0x80, CHR 0x87],
      [CHR 0xE2, CHR 0x80, CHR 0x88], [CHR 0xE2, CHR 0x80, CHR 0x89],
      [CHR 0xE2, CHR 0x80, CHR 0x8A], [CHR 0xE2, CHR 0x80, CHR 0xA8],
      [CHR 0xE2, CHR 0x80, CHR 0xA9], [CHR 0xE2, CHR 0x80, CHR 0xAF],
      [CHR 0xE2, CHR 0x81, CHR 0x9F], [CHR 0xE3, CHR 0x80, CHR 0x80],
      [CHR 0xEF, CHR 0xBB, CHR 0xBF]]"

function trim_start :: "string \<Rightarrow> string" where
  "trim_start s =
     (case find (\<lambda>w. prefix w s) white_space of
        Some w \<Rightarrow> trim_start (drop (length w) s)
      | None \<Rightarrow> s)"
  by pat_completeness auto
termination
proof (relation "measure length")
  show "wf (measure length)" by simp
next
  fix s w :: string
  assume "find (\<lambda>w. prefix w s) white_space = Some w"
  then have "w \<in> set white_space" and "prefix w s"
    by (auto simp add: find_Some_iff)
  then have "w \<noteq> []" and "length w \<le> length s"
    by (auto simp add: white_space_def prefix_length_le)
  then show "(drop (length w) s, s) \<in> measure length"
    by (cases w) auto
qed

function trim_end :: "string \<Rightarrow> string" where
  "trim_end s =
     (case find (\<lambda>w. suffix w s) white_space of
        Some w \<Rightarrow> trim_end (take (length s - length w) s)
      | None \<Rightarrow> s)"
  by pat_completeness auto
termination
proof (relation "measure length")
  show "wf (measure length)" by simp
next
  fix s w :: string
  assume "find (\<lambda>w. suffix w s) white_space = Some w"
  then have "w \<in> set white_space" and "suffix w s"
    by (auto simp add: find_Some_iff)
  then have "w \<noteq> []" and "length w \<le> length s"
    by (auto simp add: white_space_def suffix_length_le)
  then show "(take (length s - length w) s, s) \<in> measure length"
    by (cases w) auto
qed

definition trim :: "string \<Rightarrow> string" where
  "trim s = trim_end (trim_start s)"

text \<open>
  \<open>String.prototype.toLowerCase\<close> on a text of code points up to U+00FF (ASCII and
  Latin-1): the letters \<open>A\<close> to \<open>Z\<close> and U+00C0 to U+00DE without the sign U+00D7 move
  up by 32, everything else stays. Beyond that range the mapping is the runtime's (see the
  environment below).
\<close>

definition lower_cp :: "nat \<Rightarrow> nat" where
  "lower_cp n =
     (if (0x41 \<le> n \<and> n \<le> 0x5A) \<or> (0xC0 \<le> n \<and> n \<le> 0xDE \<and> n \<noteq> 0xD7) then n + 32 else n)"

definition latin1 :: "string \<Rightarrow> bool" where
  "latin1 s = list_all (\<lambda>n. n < 0x100) (utf8_decode s)"

definition lower_latin1 :: "string \<Rightarrow> string" where
  "lower_latin1 s = utf8_encode (map lower_cp (utf8_decode s))"

subsection \<open>The result cache\<close>

record entry =
  timestamp :: int
  data :: js_value

type_synonym cache = "string \<rightharpoonup> entry"

definition CACHE_TTL_MS :: int where
  "CACHE_TTL_MS = 60 * 60 * 1000"

text \<open>
  \<open>setCache\<close> and \<open>getCache\<close> read \<open>Date.now()\<close>; the reading is the first argument.
  \<open>getCache\<close> returns \<open>null\<close> on a miss and deletes the key whenever it does not return
  the entry's data.
\<close>

definition setCache :: "int \<Rightarrow> string \<Rightarrow> js_value \<Rightarrow> cache \<Rightarrow> cache" where
  "setCache now key d c = c(key \<mapsto> \<lparr>timestamp = now, data = d\<rparr>)"

definition getCache :: "int \<Rightarrow> string \<Rightarrow> cache \<Rightarrow> js_value \<times> cache" where
  "getCache now key c =
     (case c key of
        Some e \<Rightarrow>
          if now - timestamp e < CACHE_TTL_MS then (data e, c)
          else (Null, c(key := None))
      | None \<Rightarrow> (Null, c(key := None)))"

subsection \<open>Failures\<close>

text \<open>
  Anything can be thrown. An error object is the object of its properties: \<open>new Error(msg)\<close>
  has the message and no status.
\<close>

definition new_Error :: "string \<Rightarrow> js_value" where
  "new_Error msg = Obj [(''message'', Str msg)]"

text \<open>
  The \<open>TypeError\<close> of the runtime for \<open>v.name\<close> on \<open>null\<close> or \<open>undefined\<close> and for
  a call of what is not a function (message texts in the manner of V8; nothing below
  depends on their wording).
\<close>

definition TypeError_read :: "js_value \<Rightarrow> string \<Rightarrow> js_value" where
  "TypeError_read v name =
     new_Error (''Cannot read properties of '' @ (if v = Null then ''null'' else ''undefined'')
                @ '' (reading '' @ [CHR 0x27] @ name @ [CHR 0x27] @ '')'')"

definition TypeError_call :: "string \<Rightarrow> js_value" where
  "TypeError_call name = new_Error (name @ '' is not a function'')"

definition busy_error :: js_value where
  "busy_error = new_Error ''The AI service is currently busy. Please try again in a few moments.''"

text \<open>
  \<open>error.message?.includes(pat)\<close> for a caught value: reading \<open>message\<close> of \<open>null\<close> or
  \<open>undefined\<close> raises; an absent message gives \<open>undefined\<close>; strings and arrays have
  \<open>includes\<close>; for any other message the call raises.
\<close>

definition message_includes :: "js_value \<Rightarrow> string \<Rightarrow> js_value + js_value" where
  "message_includes err pat =
     (if nullish err then Inl (TypeError_read err ''message'')
      else
        (case get_prop err ''message'' of
           Undefined \<Rightarrow> Inr Undefined
         | Null \<Rightarrow> Inr Undefined
         | Str m \<Rightarrow> Inr (Bool (str_includes m pat))
         | Arr ms \<Rightarrow> Inr (Bool (Str pat \<in> set ms))
         | _ \<Rightarrow> Inl (TypeError_call ''error.message?.includes'')))"

text \<open>
  The classification of \<open>withRetry\<close>: the three marker tests in order, then the status.
  \<open>Inl\<close> is the \<open>TypeError\<close> raised while classifying.
\<close>

definition isRetryable :: "js_value \<Rightarrow> js_value + bool" where
  "isRetryable err =
     (case message_includes err ''503'' of
        Inl t \<Rightarrow> Inl t
      | Inr a \<Rightarrow>
          if truthy a then Inr True
          else
            (case message_includes err ''UNAVAILABLE'' of
               Inl t \<Rightarrow> Inl t
             | Inr b \<Rightarrow>
                 if truthy b then Inr True
                 else
                   (case message_includes err ''overloaded'' of
                      Inl t \<Rightarrow> Inl t
                    | Inr c \<Rightarrow>
                        if truthy c then Inr True
                        else Inr (get_prop err ''status'' = Num 503))))"

text \<open>A failure whose message is a string with one of the markers in it.\<close>

definition has_marker :: "js_value \<Rightarrow> bool" where
  "has_marker err =
     (case get_prop err ''message'' of
        Str m \<Rightarrow> str_includes m ''503'' \<or> str_includes m ''UNAVAILABLE'' \<or> str_includes m ''overloaded''
      | _ \<Rightarrow> False)"

subsection \<open>The provider and the runtime\<close>

text \<open>
  The request sent with \<open>ai.models.generateContent\<close>: which of the four prompts, and the
  values interpolated into it. (Model name, prompt wording and response schema are fixed
  per prompt.)
\<close>

datatype request =
    WordsRequest string string
  | SpeechRequest string string
  | AssessRequest js_value js_value js_value js_value
  | TranslateRequest string

record response =
  resp_text :: "string option"
  candidates :: js_value

text \<open>
  What the gateway calls but does not define: the provider, the clock, the timer behind
  \<open>sleep\<close>, \<open>JSON.parse\<close>, and \<open>toLowerCase\<close> on text with code points beyond
  U+00FF. The type \<open>'x\<close> is the state of the world outside the gateway.
\<close>

record 'x env =
  generateContent :: "request \<Rightarrow> 'x \<Rightarrow> (js_value + response) \<times> 'x"
  date_now :: "'x \<Rightarrow> int"
  sleep :: "rat \<Rightarrow> 'x \<Rightarrow> 'x"
  json_parse :: "string \<Rightarrow> js_value + js_value"
  unicode_toLowerCase :: "string \<Rightarrow> string"

definition toLowerCase :: "'x env \<Rightarrow> string \<Rightarrow> string" where
  "toLowerCase env s = (if latin1 s then lower_latin1 s else unicode_toLowerCase env s)"

subsection \<open>The retry executor\<close>

text \<open>
  What \<open>withRetry\<close> does besides returning: it calls the operation, writes to the console
  and sleeps. The events are recorded in order; \<open>attempts\<close> counts the calls. The bound
  and the delay are numbers, the attempt counter is an integer.
\<close>

datatype event =
    Call
  | ConsoleWarn int rat rat
  | Sleep rat
  | ConsoleError rat js_value
  | ApiError js_value


function withRetry_loop ::
  "'x env \<Rightarrow> ('x \<Rightarrow> (js_value + 'a) \<times> 'x) \<Rightarrow> rat \<Rightarrow> int \<Rightarrow> rat \<Rightarrow> 'x \<Rightarrow> event list
     \<Rightarrow> (js_value + 'a) \<times> 'x \<times> event list" where
  "withRetry_loop env apiCall maxRetries attempt delay x tr =
     (if of_int attempt < maxRetries then
        (case apiCall x of
           (Inr v, x') \<Rightarrow> (Inr v, x', tr @ [Call])
         | (Inl err, x') \<Rightarrow>
             (case isRetryable err of
                Inl typeError \<Rightarrow> (Inl typeError, x', tr @ [Call])
              | Inr retryable \<Rightarrow>
                  if retryable \<and> of_int (attempt + 1) < maxRetries then
                    withRetry_loop env apiCall maxRetries (attempt + 1) (delay * 2)
                      (sleep env delay x')
                      (tr @ [Call, ConsoleWarn (attempt + 1) maxRetries delay, Sleep delay])
                  else if retryable then
                    (Inl busy_error, x', tr @ [Call, ConsoleError maxRetries err])
                  else (Inl err, x', tr @ [Call])))
      else (Inl (new_Error ''API call failed after multiple retries.''), x, tr))"
  by pat_completeness auto
termination
  by (relation "measure (\<lambda>(env, apiCall, maxRetries, attempt, delay, x, tr).
        nat (\<lceil>maxRetries\<rceil> - attempt))")
     (auto simp add: less_ceiling_iff)

definition withRetry ::
  "'x env \<Rightarrow> ('x \<Rightarrow> (js_value + 'a) \<times> 'x) \<Rightarrow> rat \<Rightarrow> rat \<Rightarrow> 'x
     \<Rightarrow> (js_value + 'a) \<times> 'x \<times> event list" where
  "withRetry env apiCall maxRetries initialDelay x =
     withRetry_loop env apiCall maxRetries 0 initialDelay x []"

subsection \<open>The operation handlers\<close>

text \<open>
  The state a handler works on: the process-wide cache, the world outside, and the
  events (calls, console lines, sleeps) so far.
\<close>

record 'x gateway =
  cache :: cache
  ext :: 'x
  trace :: "event list"

text \<open>
  \<open>v.toLowerCase()\<close> on an argument that came out of a request payload: anything but a
  string raises.
\<close>

definition toLowerCase_error :: "string \<Rightarrow> js_value \<Rightarrow> js_value" where
  "toLowerCase_error name v =
     (if nullish v then TypeError_read v ''toLowerCase'' else TypeError_call (name @ ''.toLowerCase''))"

definition words_cacheKey :: "'x env \<Rightarrow> string \<Rightarrow> string \<Rightarrow> string" where
  "words_cacheKey env topic language =
     ''words:'' @ toLowerCase env topic @ '':'' @ toLowerCase env language"

definition speech_cacheKey :: "'x env \<Rightarrow> string \<Rightarrow> string \<Rightarrow> string" where
  "speech_cacheKey env txt voice =
     ''speech:'' @ toLowerCase env txt @ '':'' @ toLowerCase env voice"

definition instructions_cacheKey :: "'x env \<Rightarrow> string \<Rightarrow> string" where
  "instructions_cacheKey env languageName = ''instructions:'' @ toLowerCase env languageName"

text \<open>\<open>(parsed.words || []).slice(0, 10)\<close> and the check that follows it.\<close>

definition words_of_parsed :: "js_value \<Rightarrow> js_value + js_value" where
  "words_of_parsed parsed =
     (if nullish parsed then Inl (TypeError_read parsed ''words'')
      else
        (case (if truthy (get_prop parsed ''words'') then get_prop parsed ''words'' else Arr []) of
           Arr ws \<Rightarrow>
             if take 10 ws = [] then Inl (new_Error ''Invalid response format from API.'')
             else Inr (Arr (take 10 ws))
         | Str w \<Rightarrow> Inl (new_Error ''Invalid response format from API.'')
         | _ \<Rightarrow> Inl (TypeError_call ''(intermediate value).slice'')))"

definition words_apiCall :: "'x env \<Rightarrow> string \<Rightarrow> string \<Rightarrow> 'x \<Rightarrow> (js_value + js_value) \<times> 'x" where
  "words_apiCall env topic language x =
     (case generateContent env (WordsRequest topic language) x of
        (Inl err, x') \<Rightarrow> (Inl err, x')
      | (Inr response, x') \<Rightarrow>
          (case resp_text response of
             None \<Rightarrow> (Inl (TypeError_read Undefined ''trim''), x')
           | Some t \<Rightarrow>
               (case json_parse env (trim t) of
                  Inl err \<Rightarrow> (Inl err, x')
                | Inr parsed \<Rightarrow> (words_of_parsed parsed, x'))))"

text \<open>
  The shape shared by the three cacheable handlers after the key is built: probe the
  cache, on a miss run the operation through \<open>withRetry\<close> with its defaults, store a
  result, return it.
\<close>

definition cached_call ::
  "'x env \<Rightarrow> string \<Rightarrow> ('x \<Rightarrow> (js_value + js_value) \<times> 'x) \<Rightarrow> 'x gateway
     \<Rightarrow> (js_value + js_value) \<times> 'x gateway" where
  "cached_call env cacheKey apiCall s =
     (case getCache (date_now env (ext s)) cacheKey (cache s) of
        (cached, c) \<Rightarrow>
          if truthy cached then (Inr cached, s\<lparr>cache := c\<rparr>)
          else
            (case withRetry env apiCall 3 1000 (ext s) of
               (Inl err, x', tr) \<Rightarrow> (Inl err, \<lparr>cache = c, ext = x', trace = trace s @ tr\<rparr>)
             | (Inr result, x', tr) \<Rightarrow>
                 (Inr result,
                  \<lparr>cache = setCache (date_now env x') cacheKey result c, ext = x',
                   trace = trace s @ tr\<rparr>)))"

definition handleGenerateWords ::
  "'x env \<Rightarrow> js_value \<Rightarrow> js_value \<Rightarrow> 'x gateway \<Rightarrow> (js_value + js_value) \<times> 'x gateway" where
  "handleGenerateWords env topic language s =
     (case topic of
        Str t \<Rightarrow>
          (case language of
             Str l \<Rightarrow> cached_call env (words_cacheKey env t l) (words_apiCall env t l) s
           | _ \<Rightarrow> (Inl (toLowerCase_error ''language'' language), s))
      | _ \<Rightarrow> (Inl (toLowerCase_error ''topic'' topic), s))"

definition speech_apiCall :: "'x env \<Rightarrow> string \<Rightarrow> string \<Rightarrow> 'x \<Rightarrow> (js_value + js_value) \<times> 'x" where
  "speech_apiCall env txt voice x =
     (case generateContent env (SpeechRequest txt voice) x of
        (Inl err, x') \<Rightarrow> (Inl err, x')
      | (Inr response, x') \<Rightarrow>
          (let base64Audio =
                 opt_prop (opt_first_prop (opt_prop (opt_first_prop (candidates response)
                   ''content'') ''parts'') ''inlineData'') ''data''
           in if \<not> truthy base64Audio then (Inl (new_Error ''No audio data received from TTS API''), x')
              else (Inr base64Audio, x')))"

definition handleGenerateSpeech ::
  "'x env \<Rightarrow> js_value \<Rightarrow> js_value \<Rightarrow> 'x gateway \<Rightarrow> (js_value + js_value) \<times> 'x gateway" where
  "handleGenerateSpeech env txt voice s =
     (case txt of
        Str t \<Rightarrow>
          (case voice of
             Str v \<Rightarrow> cached_call env (speech_cacheKey env t v) (speech_apiCall env t v) s
           | _ \<Rightarrow> (Inl (toLowerCase_error ''voice'' voice), s))
      | _ \<Rightarrow> (Inl (toLowerCase_error ''text'' txt), s))"

definition assess_apiCall ::
  "'x env \<Rightarrow> js_value \<Rightarrow> js_value \<Rightarrow> js_value \<Rightarrow> js_value \<Rightarrow> 'x \<Rightarrow> (js_value + js_value) \<times> 'x" where
  "assess_apiCall env word language userAudioBase64 mimeType x =
     (case generateContent env (AssessRequest word language userAudioBase64 mimeType) x of
        (Inl err, x') \<Rightarrow> (Inl err, x')
      | (Inr response, x') \<Rightarrow>
          (case resp_text response of
             None \<Rightarrow> (Inl (TypeError_read Undefined ''trim''), x')
           | Some t \<Rightarrow> (json_parse env (trim t), x')))"

definition handleAssessPronunciation ::
  "'x env \<Rightarrow> js_value \<Rightarrow> js_value \<Rightarrow> js_value \<Rightarrow> js_value \<Rightarrow> 'x gateway
     \<Rightarrow> (js_value + js_value) \<times> 'x gateway" where
  "handleAssessPronunciation env word language userAudioBase64 mimeType s =
     (case withRetry env (assess_apiCall env word language userAudioBase64 mimeType) 3 1000 (ext s) of
        (r, x', tr) \<Rightarrow> (r, s\<lparr>ext := x', trace := trace s @ tr\<rparr>))"

text \<open>The canonical instructions text, abridged: eight numbered lines in the source.\<close>

definition BASE_INSTRUCTIONS :: string where
  "BASE_INSTRUCTIONS = ''1.  **Enter a Topic:** ... 8.  **Practice Again:** ...''"

definition translate_apiCall :: "'x env \<Rightarrow> string \<Rightarrow> 'x \<Rightarrow> (js_value + js_value) \<times> 'x" where
  "translate_apiCall env languageName x =
     (case generateContent env (TranslateRequest languageName) x of
        (Inl err, x') \<Rightarrow> (Inl err, x')
      | (Inr response, x') \<Rightarrow>
          (case resp_text response of
             None \<Rightarrow> (Inr Undefined, x')
           | Some t \<Rightarrow> (Inr (Str t), x')))"

definition handleGetTranslatedInstructions ::
  "'x env \<Rightarrow> js_value \<Rightarrow> 'x gateway \<Rightarrow> (js_value + js_value) \<times> 'x gateway" where
  "handleGetTranslatedInstructions env languageName s =
     (case languageName of
        Str l \<Rightarrow>
          if toLowerCase env l = ''english'' then (Inr (Str BASE_INSTRUCTIONS), s)
          else cached_call env (instructions_cacheKey env l) (translate_apiCall env l) s
      | _ \<Rightarrow> (Inl (toLowerCase_error ''languageName'' languageName), s))"

subsection \<open>The dispatch entry point\<close>

text \<open>
  A request is its method and what \<open>await req.json()\<close> yields when it is asked for. A
  response body is a text, or \<open>JSON.stringify\<close> of a value.
\<close>

record http_request =
  req_method :: string
  req_json :: "js_value + js_value"

datatype body = Text string | Json js_value

record http_response =
  body :: body
  status_code :: nat
  content_type :: "string option"

definition json_response :: "js_value \<Rightarrow> nat \<Rightarrow> http_response" where
  "json_response v code = \<lparr>body = Json v, status_code = code, content_type = Some ''application/json''\<rparr>"

text \<open>
  The guarded block of the entry point: \<open>Inl\<close> is what it throws, \<open>Inr\<close> the response
  it returns.
\<close>

definition respond ::
  "(js_value + js_value) \<times> 'x gateway \<Rightarrow> (js_value + http_response) \<times> 'x gateway" where
  "respond r =
     (case r of
        (Inl err, s') \<Rightarrow> (Inl err, s')
      | (Inr result, s') \<Rightarrow> (Inr (json_response result 200), s'))"

definition route ::
  "'x env \<Rightarrow> http_request \<Rightarrow> 'x gateway \<Rightarrow> (js_value + http_response) \<times> 'x gateway" where
  "route env req s =
     (case req_json req of
        Inl err \<Rightarrow> (Inl err, s)
      | Inr envelope \<Rightarrow>
          if nullish envelope then (Inl (TypeError_read envelope ''action''), s)
          else
            (let action = get_prop envelope ''action'';
                 payload = get_prop envelope ''payload''
             in if action = Str ''generateWords'' then
                  (if nullish payload then (Inl (TypeError_read payload ''topic''), s)
                   else respond (handleGenerateWords env (get_prop payload ''topic'')
                          (get_prop payload ''language'') s))
                else if action = Str ''generateSpeech'' then
                  (if nullish payload then (Inl (TypeError_read payload ''text''), s)
                   else respond (handleGenerateSpeech env (get_prop payload ''text'')
                          (get_prop payload ''voice'') s))
                else if action = Str ''assessPronunciation'' then
                  (if nullish payload then (Inl (TypeError_read payload ''word''), s)
                   else respond (handleAssessPronunciation env (get_prop payload ''word'')
                          (get_prop payload ''language'') (get_prop payload ''userAudioBase64'')
                          (get_prop payload ''mimeType'') s))
                else if action = Str ''getTranslatedInstructions'' then
                  (if nullish payload then (Inl (TypeError_read payload ''languageName''), s)
                   else respond (handleGetTranslatedInstructions env
                          (get_prop payload ''languageName'') s))
                else (Inr (json_response (Obj [(''error'', Str ''Invalid action'')]) 400), s)))"

text \<open>
  The entry point. What the guarded block throws is logged and turned into a 500
  response carrying \<open>error.message || 'An internal server error occurred.'\<close>; reading the
  message of a thrown \<open>null\<close> or \<open>undefined\<close> raises out of the entry point (\<open>Inl\<close>).
\<close>

definition api ::
  "'x env \<Rightarrow> http_request \<Rightarrow> 'x gateway \<Rightarrow> (js_value + http_response) \<times> 'x gateway" where
  "api env req s =
     (if req_method req \<noteq> ''POST'' then
        (Inr \<lparr>body = Text ''Method Not Allowed'', status_code = 405, content_type = None\<rparr>, s)
      else
        (case route env req s of
           (Inr resp, s') \<Rightarrow> (Inr resp, s')
         | (Inl err, s') \<Rightarrow>
             if nullish err then
               (Inl (TypeError_read err ''message''), s'\<lparr>trace := trace s' @ [ApiError err]\<rparr>)
             else
               (Inr (json_response
                  (Obj [(''error'',
                     if truthy (get_prop err ''message'') then get_prop err ''message''
                     else Str ''An internal server error occurred.'')])
                  500),
                s'\<lparr>trace := trace s' @ [ApiError err]\<rparr>)))"

subsection \<open>Notions of the specification\<close>

text \<open>
  The shape of \<open>interface Assessment\<close> (types.ts) with the range the data model gives the
  score: an integer \<open>score\<close> from 1 to 100 and a string \<open>feedback\<close>.
\<close>

definition is_Assessment :: "js_value \<Rightarrow> bool" where
  "is_Assessment v =
     ((case get_prop v ''score'' of
         Num r \<Rightarrow> r = of_int \<lfloor>r\<rfloor> \<and> 1 \<le> r \<and> r \<le> 100
       | _ \<Rightarrow> False) \<and>
      (case get_prop v ''feedback'' of Str f \<Rightarrow> True | _ \<Rightarrow> False))"




subsection \<open>Example operations and environments\<close>




definition eleven_words :: string where
  \<open>eleven_words = ''{"words":["a","b","c","d","e","f","g","h","i","j","k"]}''\<close>

definition eleven_equal_words :: string where
  \<open>eleven_equal_words = ''{"words":["a","a","a","a","a","a","a","a","a","a","a"]}''\<close>

definition parse_example :: "string \<Rightarrow> js_value + js_value" where
  "parse_example s =
     (if s = ''{}'' then Inr (Obj [])
      else if s = eleven_words then Inr (Obj [(''words'', Arr (map (\<lambda>c. Str [c]) ''abcdefghijk''))])
      else if s = eleven_equal_words then Inr (Obj [(''words'', Arr (replicate 11 (Str ''a'')))])
      else Inl (new_Error ''Unexpected end of JSON input''))"

definition road_capitals :: string where
  "road_capitals = [CHR 0xCE, CHR 0x9F, CHR 0xCE, CHR 0x94, CHR 0xCE, CHR 0x9F, CHR 0xCE, CHR 0xA3]"


definition road_final_sigma :: string where
  "road_final_sigma = [CHR 0xCE, CHR 0xBF, CHR 0xCE, CHR 0xB4, CHR 0xCE, CHR 0xBF, CHR 0xCF, CHR 0x82]"

definition lower_example :: "string \<Rightarrow> string" where
  "lower_example s = (if s = road_capitals then road_final_sigma else s)"

definition reply_env :: "string \<Rightarrow> nat env" where
  "reply_env reply =
     \<lparr>generateContent = (\<lambda>req n. (Inr \<lparr>resp_text = Some reply, candidates = Undefined\<rparr>, Suc n)),
      date_now = (\<lambda>n. 1000 * int n),
      sleep = (\<lambda>d n. n),
      json_parse = parse_example,
      unicode_toLowerCase = lower_example\<rparr>"

definition start :: "nat gateway" where
  "start = \<lparr>cache = Map.empty, ext = 0, trace = []\<rparr>"

section \<open>Properties\<close>

subsection \<open>Strings\<close>

lemma str_includes_sublist: "str_includes s pat = sublist pat s"
  by (induction s) (simp_all add: sublist_Cons_right)




subsection \<open>The result cache\<close>

text \<open>
  C3: a \<open>getCache\<close> of a key after a \<open>setCache\<close> of it, while less than the TTL has passed
  since the insertion, returns exactly the stored value and leaves the cache as it was: the
  entry keeps its insertion time, so every later \<open>getCache\<close> returns the value if and only
  if less than the TTL has passed since the insertion.
\<close>

theorem getCache_after_setCache:
  assumes "now' - now < CACHE_TTL_MS"
  shows "getCache now' key (setCache now key v c) = (v, setCache now key v c) \<and>
         map_option timestamp (snd (getCache now' key (setCache now key v c)) key) = Some now \<and>
         (\<forall>t. fst (getCache t key (snd (getCache now' key (setCache now key v c))))
               = (if t - now < CACHE_TTL_MS then v else Null))"
  using assms by (simp add: getCache_def setCache_def)

theorem getCache_after_setCache_witness:
  "(1000::int) - 0 < CACHE_TTL_MS \<and>
   fst (getCache 1000 ''words:fruit:english''
         (setCache 0 ''words:fruit:english'' (Arr [Str ''apple'']) Map.empty)) = Arr [Str ''apple''] \<and>
   fst (getCache 3600000 ''words:fruit:english''
         (snd (getCache 1000 ''words:fruit:english''
                (setCache 0 ''words:fruit:english'' (Arr [Str ''apple'']) Map.empty)))) = Null"
proof -
  have h: "(1000::int) - 0 < CACHE_TTL_MS" by (simp add: CACHE_TTL_MS_def)
  note inst = getCache_after_setCache [OF h, of "''words:fruit:english''" "Arr [Str ''apple'']" Map.empty]
  from inst have "fst (getCache 1000 ''words:fruit:english''
         (setCache 0 ''words:fruit:english'' (Arr [Str ''apple'']) Map.empty)) = Arr [Str ''apple'']"
    by simp
  moreover from inst have "fst (getCache 3600000 ''words:fruit:english''
         (snd (getCache 1000 ''words:fruit:english''
                (setCache 0 ''words:fruit:english'' (Arr [Str ''apple'']) Map.empty))))
       = (if (3600000::int) - 0 < CACHE_TTL_MS then Arr [Str ''apple''] else Null)"
    by blast
  ultimately show ?thesis using h by (simp add: CACHE_TTL_MS_def)
qed

text \<open>
  C4: a \<open>getCache\<close> of a key whose entry is at least the TTL old removes the entry and
  returns \<open>null\<close>; a \<open>setCache\<close> of the key after that makes the new value retrievable
  while less than the TTL has passed since the new insertion.
\<close>

theorem getCache_expired:
  assumes "c key = Some e" and "CACHE_TTL_MS \<le> now - timestamp e"
  shows "getCache now key c = (Null, c(key := None)) \<and>
         (\<forall>now2 now3 v. now3 - now2 < CACHE_TTL_MS \<longrightarrow>
            getCache now3 key (setCache now2 key v (snd (getCache now key c)))
              = (v, setCache now2 key v (snd (getCache now key c))))"
  using assms by (simp add: getCache_def setCache_def)

theorem getCache_expired_witness:
  "(Map.empty(''k'' \<mapsto> \<lparr>timestamp = 0, data = Str ''old''\<rparr>)) ''k'' = Some \<lparr>timestamp = 0, data = Str ''old''\<rparr> \<and>
   CACHE_TTL_MS \<le> 3600000 - timestamp \<lparr>timestamp = 0, data = Str ''old''\<rparr> \<and>
   fst (getCache 3600000 ''k'' (Map.empty(''k'' \<mapsto> \<lparr>timestamp = 0, data = Str ''old''\<rparr>))) = Null \<and>
   snd (getCache 3600000 ''k'' (Map.empty(''k'' \<mapsto> \<lparr>timestamp = 0, data = Str ''old''\<rparr>))) ''k'' = None \<and>
   fst (getCache 3600002 ''k'' (setCache 3600001 ''k'' (Str ''new'')
         (snd (getCache 3600000 ''k'' (Map.empty(''k'' \<mapsto> \<lparr>timestamp = 0, data = Str ''old''\<rparr>))))))
     = Str ''new''"
proof -
  let ?e = "\<lparr>timestamp = 0, data = Str ''old''\<rparr>"
  let ?c = "Map.empty(''k'' \<mapsto> ?e)"
  have h1: "?c ''k'' = Some ?e" by simp
  have h2: "CACHE_TTL_MS \<le> 3600000 - timestamp ?e" by (simp add: CACHE_TTL_MS_def)
  have h3: "(3600002::int) - 3600001 < CACHE_TTL_MS" by (simp add: CACHE_TTL_MS_def)
  note inst = getCache_expired [of ?c "''k''" ?e 3600000, OF h1 h2]
  from inst have a: "getCache 3600000 ''k'' ?c = (Null, ?c(''k'' := None))" by blast
  from inst h3 have b: "getCache 3600002 ''k'' (setCache 3600001 ''k'' (Str ''new'') (snd (getCache 3600000 ''k'' ?c)))
      = (Str ''new'', setCache 3600001 ''k'' (Str ''new'') (snd (getCache 3600000 ''k'' ?c)))" by blast
  show ?thesis using h1 h2 a b by simp
qed

subsection \<open>The retry executor\<close>





text \<open>
  A failure that is an object with a string or no message is classified without raising:
  it is retryable exactly when the message has a marker or the status is 503.
\<close>

lemma isRetryable_error_value:
  assumes "\<not> nullish e"
    and "get_prop e ''message'' = Undefined \<or> (\<exists>m. get_prop e ''message'' = Str m)"
  shows "isRetryable e = Inr (has_marker e \<or> get_prop e ''status'' = Num 503)"
  using assms
  by (auto simp add: has_marker_def isRetryable_def message_includes_def)




lemma withRetry_first_success:
  "apiCall x = (Inr v, x') \<Longrightarrow> 0 < maxRetries \<Longrightarrow>
   withRetry env apiCall maxRetries initialDelay x = (Inr v, x', [Call])"
  unfolding withRetry_def by (subst withRetry_loop.simps) simp

lemma withRetry_loop_success_origin:
  "withRetry_loop env apiCall maxRetries attempt delay x tr = (Inr v, x', tr') \<Longrightarrow>
   \<exists>x0. apiCall x0 = (Inr v, x')"
proof (induction env apiCall maxRetries attempt delay x tr rule: withRetry_loop.induct)
  case (1 env apiCall maxRetries attempt delay x tr)
  from "1.prems" have lt: "of_int attempt < maxRetries"
    by (subst (asm) withRetry_loop.simps) (simp split: if_splits)
  obtain r x1 where call: "apiCall x = (r, x1)" by (cases "apiCall x")
  show ?case
  proof (cases r)
    case (Inr v')
    with "1.prems" lt call have "v' = v" "x1 = x'"
      by (subst (asm) withRetry_loop.simps, simp)+
    with call Inr show ?thesis by blast
  next
    case (Inl e)
    show ?thesis
    proof (cases "isRetryable e")
      case (Inl t)
      with "1.prems" lt call \<open>r = Inl e\<close> have False
        by (subst (asm) withRetry_loop.simps) simp
      then show ?thesis ..
    next
      case (Inr retryable)
      show ?thesis
      proof (cases "retryable \<and> of_int (attempt + 1) < maxRetries")
        case True
        with "1.prems" lt call \<open>r = Inl e\<close> Inr
        have "withRetry_loop env apiCall maxRetries (attempt + 1) (delay * 2) (sleep env delay x1)
                (tr @ [Call, ConsoleWarn (attempt + 1) maxRetries delay, Sleep delay]) = (Inr v, x', tr')"
          by (subst (asm) withRetry_loop.simps) simp
        from "1.IH" [OF lt call [symmetric, unfolded \<open>r = Inl e\<close>] refl Inr True this]
        show ?thesis .
      next
        case False
        with "1.prems" lt call \<open>r = Inl e\<close> Inr have False
          by (subst (asm) withRetry_loop.simps) (simp split: if_splits)
        then show ?thesis ..
      qed
    qed
  qed
qed






subsection \<open>Cache keys\<close>

lemma cached_call_hit:
  assumes "truthy (fst (getCache (date_now env (ext s)) key (cache s)))"
  shows "cached_call env key apiCall s
           = (Inr (fst (getCache (date_now env (ext s)) key (cache s))), s)"
proof (cases "cache s key")
  case None
  with assms show ?thesis by (simp add: getCache_def)
next
  case (Some e)
  with assms show ?thesis
    by (cases "date_now env (ext s) - timestamp e < CACHE_TTL_MS")
       (simp_all add: getCache_def cached_call_def)
qed




lemma words_apiCall_truthy: "words_apiCall env t l x0 = (Inr v, x1) \<Longrightarrow> truthy v"
  by (auto simp add: words_apiCall_def words_of_parsed_def
      split: prod.splits sum.splits option.splits if_splits js_value.splits)

lemma cached_call_again:
  assumes results: "\<forall>x0 x1 v. apiCall x0 = (Inr v, x1) \<longrightarrow> truthy v"
    and first: "cached_call env key apiCall s = (Inr r, s')"
  shows "cached_call env key apiCall' s' = (Inr r, s')"
proof (cases "truthy (fst (getCache (date_now env (ext s)) key (cache s)))")
  case True
  from cached_call_hit [OF True, of apiCall] first
  have same: "s' = s" and r: "Inr r = Inr (fst (getCache (date_now env (ext s)) key (cache s)))"
    by simp_all
  from cached_call_hit [OF True, of apiCall'] show ?thesis
    unfolding same r .
next
  case False
  obtain r0 x' tr where run: "withRetry env apiCall 3 1000 (ext s) = (r0, x', tr)"
    by (cases "withRetry env apiCall 3 1000 (ext s)")
  obtain cached c where probe: "getCache (date_now env (ext s)) key (cache s) = (cached, c)"
    by (cases "getCache (date_now env (ext s)) key (cache s)")
  from first False run probe have r0: "r0 = Inr r"
    and s': "s' = \<lparr>cache = setCache (date_now env x') key r c, ext = x', trace = trace s @ tr\<rparr>"
    by (auto simp add: cached_call_def split: sum.splits)
  from run r0 have "withRetry_loop env apiCall 3 0 1000 (ext s) [] = (Inr r, x', tr)"
    by (simp add: withRetry_def)
  from withRetry_loop_success_origin [OF this] obtain x0 where "apiCall x0 = (Inr r, x')" ..
  with results have "truthy r" by blast
  moreover have "getCache (date_now env (ext s')) key (cache s') = (r, cache s')"
    by (simp add: s' getCache_def setCache_def CACHE_TTL_MS_def)
  ultimately have "truthy (fst (getCache (date_now env (ext s')) key (cache s')))" by simp
  from cached_call_hit [OF this] show ?thesis
    using \<open>getCache (date_now env (ext s')) key (cache s') = (r, cache s')\<close> by simp
qed

lemma words_cacheKey_collision:
  "words_cacheKey env ''a:b'' ''c'' = words_cacheKey env ''a'' ''b:c''"
  by code_simp

text \<open>
  C10: the key construction is not injective. The distinct input pairs (\<open>a:b\<close>, \<open>c\<close>)
  and (\<open>a\<close>, \<open>b:c\<close>) of generate-words derive the same key, and once a call for the first
  pair has returned a result, a call for the second pair in the state it left returns that
  same result from the cache, without calling the provider.
\<close>

theorem words_cacheKey_not_injective:
  "(''a:b'', ''c'') \<noteq> (''a'', ''b:c'') \<and>
   (\<forall>env :: 'x env. words_cacheKey env ''a:b'' ''c'' = words_cacheKey env ''a'' ''b:c'') \<and>
   (\<forall>(env :: 'x env) s r s'. handleGenerateWords env (Str ''a:b'') (Str ''c'') s = (Inr r, s') \<longrightarrow>
      handleGenerateWords env (Str ''a'') (Str ''b:c'') s' = (Inr r, s'))"
proof (intro conjI allI impI)
  show "(''a:b'', ''c'') \<noteq> (''a'', ''b:c'')" by simp
  show "words_cacheKey env ''a:b'' ''c'' = words_cacheKey env ''a'' ''b:c''" for env :: "'x env"
    by (rule words_cacheKey_collision)
next
  fix env :: "'x env" and s r s'
  assume "handleGenerateWords env (Str ''a:b'') (Str ''c'') s = (Inr r, s')"
  then have "cached_call env (words_cacheKey env ''a:b'' ''c'') (words_apiCall env ''a:b'' ''c'') s
               = (Inr r, s')"
    by (simp add: handleGenerateWords_def)
  moreover have "\<forall>x0 x1 v. words_apiCall env ''a:b'' ''c'' x0 = (Inr v, x1) \<longrightarrow> truthy v"
    by (intro allI impI) (rule words_apiCall_truthy)
  ultimately have "cached_call env (words_cacheKey env ''a:b'' ''c'') (words_apiCall env ''a'' ''b:c'') s'
               = (Inr r, s')"
    by (rule cached_call_again [rotated])
  then show "handleGenerateWords env (Str ''a'') (Str ''b:c'') s' = (Inr r, s')"
    by (simp add: handleGenerateWords_def words_cacheKey_collision)
qed

theorem words_cacheKey_not_injective_witness:
  "handleGenerateWords (reply_env eleven_words) (Str ''a:b'') (Str ''c'') start
     = (Inr (Arr (map (\<lambda>c. Str [c]) ''abcdefghij'')),
        snd (handleGenerateWords (reply_env eleven_words) (Str ''a:b'') (Str ''c'') start)) \<and>
   handleGenerateWords (reply_env eleven_words) (Str ''a'') (Str ''b:c'')
       (snd (handleGenerateWords (reply_env eleven_words) (Str ''a:b'') (Str ''c'') start))
     = (Inr (Arr (map (\<lambda>c. Str [c]) ''abcdefghij'')),
        snd (handleGenerateWords (reply_env eleven_words) (Str ''a:b'') (Str ''c'') start)) \<and>
   ext (snd (handleGenerateWords (reply_env eleven_words) (Str ''a:b'') (Str ''c'') start)) = 1"
proof -
  let ?env = "reply_env eleven_words"
  let ?s' = "snd (handleGenerateWords ?env (Str ''a:b'') (Str ''c'') start)"
  have "fst (handleGenerateWords ?env (Str ''a:b'') (Str ''c'') start)
          = Inr (Arr (map (\<lambda>c. Str [c]) ''abcdefghij''))"
    by code_simp
  then have first: "handleGenerateWords ?env (Str ''a:b'') (Str ''c'') start
          = (Inr (Arr (map (\<lambda>c. Str [c]) ''abcdefghij'')), ?s')"
    by (simp add: prod_eq_iff)
  have calls: "ext ?s' = 1" by code_simp
  from words_cacheKey_not_injective [where ?'x = nat]
  have "\<forall>(env :: nat env) s r s'.
          handleGenerateWords env (Str ''a:b'') (Str ''c'') s = (Inr r, s') \<longrightarrow>
          handleGenerateWords env (Str ''a'') (Str ''b:c'') s' = (Inr r, s')"
    by (elim conjE)
  with first have "handleGenerateWords ?env (Str ''a'') (Str ''b:c'') ?s'
          = (Inr (Arr (map (\<lambda>c. Str [c]) ''abcdefghij'')), ?s')"
    by blast
  with first calls show ?thesis by blast
qed

subsection \<open>The handlers\<close>

lemma words_apiCall_reply:
  assumes "generateContent env (WordsRequest topic language) x = (Inr response, x')"
    and "resp_text response = Some t"
    and "json_parse env (trim t) = Inr parsed"
    and "get_prop parsed ''words'' = Arr ws"
    and "ws \<noteq> []"
  shows "words_apiCall env topic language x = (Inr (Arr (take 10 ws)), x')"
proof -
  from assms(4) have "\<not> nullish parsed" by (cases parsed) simp_all
  with assms show ?thesis by (simp add: words_apiCall_def words_of_parsed_def)
qed

lemma words_apiCall_shape:
  "words_apiCall env t l x0 = (Inr v, x1) \<Longrightarrow> \<exists>ws. v = Arr ws \<and> ws \<noteq> [] \<and> length ws \<le> 10"
  by (auto simp add: words_apiCall_def words_of_parsed_def
      split: prod.splits sum.splits option.splits if_splits js_value.splits)

lemma handleGenerateWords_result_shape:
  assumes miss: "\<not> truthy (fst (getCache (date_now env (ext s)) (words_cacheKey env topic language) (cache s)))"
    and ok: "fst (handleGenerateWords env (Str topic) (Str language) s) = Inr v"
  shows "\<exists>ws. v = Arr ws \<and> ws \<noteq> [] \<and> length ws \<le> 10"
proof -
  obtain cached c where
    probe: "getCache (date_now env (ext s)) (words_cacheKey env topic language) (cache s) = (cached, c)"
    by (cases "getCache (date_now env (ext s)) (words_cacheKey env topic language) (cache s)")
  obtain r x' tr where
    run: "withRetry_loop env (words_apiCall env topic language) 3 0 1000 (ext s) [] = (r, x', tr)"
    by (cases "withRetry_loop env (words_apiCall env topic language) 3 0 1000 (ext s) []")
  from miss probe have "\<not> truthy cached" by simp
  with ok probe run have "r = Inr v"
    by (simp add: handleGenerateWords_def cached_call_def withRetry_def split: sum.splits)
  with run have "withRetry_loop env (words_apiCall env topic language) 3 0 1000 (ext s) []
      = (Inr v, x', tr)" by simp
  from withRetry_loop_success_origin [OF this] obtain x0
    where "words_apiCall env topic language x0 = (Inr v, x')" ..
  then show ?thesis by (rule words_apiCall_shape)
qed

text \<open>
  C7, as amended: on a cache miss, when the provider's reply parses to an object whose
  \<open>words\<close> is a non-empty list, the generate-words handler returns the first 10 entries
  of that list in order (all of them when there are fewer), duplicates included: nothing
  makes the entries distinct.
\<close>

theorem handleGenerateWords_first_ten:
  assumes miss: "\<not> truthy (fst (getCache (date_now env (ext s)) (words_cacheKey env topic language) (cache s)))"
    and reply: "generateContent env (WordsRequest topic language) (ext s) = (Inr response, x')"
    and has_text: "resp_text response = Some t"
    and parsed: "json_parse env (trim t) = Inr parsed"
    and words: "get_prop parsed ''words'' = Arr ws"
    and nonempty: "ws \<noteq> []"
  shows "fst (handleGenerateWords env (Str topic) (Str language) s) = Inr (Arr (take 10 ws)) \<and>
         length (take 10 ws) = min 10 (length ws)"
proof -
  have "words_apiCall env topic language (ext s) = (Inr (Arr (take 10 ws)), x')"
    using reply has_text parsed words nonempty by (rule words_apiCall_reply)
  then have "withRetry env (words_apiCall env topic language) 3 1000 (ext s)
               = (Inr (Arr (take 10 ws)), x', [Call])"
    by (simp add: withRetry_first_success)
  moreover obtain cached c where
    probe: "getCache (date_now env (ext s)) (words_cacheKey env topic language) (cache s) = (cached, c)"
    by (cases "getCache (date_now env (ext s)) (words_cacheKey env topic language) (cache s)")
  moreover from miss probe have "\<not> truthy cached" by simp
  ultimately have "fst (handleGenerateWords env (Str topic) (Str language) s)
                     = Inr (Arr (take 10 ws))"
    by (simp add: handleGenerateWords_def cached_call_def)
  then show ?thesis by simp
qed

theorem handleGenerateWords_first_ten_witness:
  "\<not> truthy (fst (getCache (date_now (reply_env eleven_words) (ext start))
        (words_cacheKey (reply_env eleven_words) ''Letters'' ''English'') (cache start))) \<and>
   generateContent (reply_env eleven_words) (WordsRequest ''Letters'' ''English'') (ext start)
     = (Inr \<lparr>resp_text = Some eleven_words, candidates = Undefined\<rparr>, 1) \<and>
   json_parse (reply_env eleven_words) (trim eleven_words)
     = Inr (Obj [(''words'', Arr (map (\<lambda>c. Str [c]) ''abcdefghijk''))]) \<and>
   fst (handleGenerateWords (reply_env eleven_words) (Str ''Letters'') (Str ''English'') start)
     = Inr (Arr (map (\<lambda>c. Str [c]) ''abcdefghij''))"
proof -
  let ?env = "reply_env eleven_words"
  let ?ws = "map (\<lambda>c. Str [c]) ''abcdefghijk''"
  have miss: "\<not> truthy (fst (getCache (date_now ?env (ext start))
        (words_cacheKey ?env ''Letters'' ''English'') (cache start)))"
    by (simp add: getCache_def start_def)
  have reply: "generateContent ?env (WordsRequest ''Letters'' ''English'') (ext start)
     = (Inr \<lparr>resp_text = Some eleven_words, candidates = Undefined\<rparr>, 1)"
    by (simp add: reply_env_def start_def)
  have has_text: "resp_text \<lparr>resp_text = Some eleven_words, candidates = Undefined\<rparr> = Some eleven_words"
    by simp
  have parsed: "json_parse ?env (trim eleven_words) = Inr (Obj [(''words'', Arr ?ws)])"
    by code_simp
  have words: "get_prop (Obj [(''words'', Arr ?ws)]) ''words'' = Arr ?ws" by simp
  have nonempty: "?ws \<noteq> []" by simp
  from handleGenerateWords_first_ten [OF miss reply has_text parsed words nonempty]
  have "fst (handleGenerateWords ?env (Str ''Letters'') (Str ''English'') start)
          = Inr (Arr (take 10 ?ws))" ..
  with miss reply parsed show ?thesis by simp
qed

text \<open>
  C7 as stated fails: for a reply of eleven equal words the handler returns ten equal
  words, which are not distinct.
\<close>

theorem handleGenerateWords_keeps_duplicates:
  "fst (handleGenerateWords (reply_env eleven_equal_words) (Str ''Letters'') (Str ''English'') start)
     = Inr (Arr (replicate 10 (Str ''a''))) \<and>
   \<not> distinct (replicate 10 (Str ''a''))"
  by code_simp

lemma handleAssessPronunciation_returns_parsed:
  assumes "generateContent env (AssessRequest word language userAudioBase64 mimeType) (ext s)
             = (Inr response, x')"
    and "resp_text response = Some t"
    and "json_parse env (trim t) = Inr v"
  shows "fst (handleAssessPronunciation env word language userAudioBase64 mimeType s) = Inr v"
proof -
  from assms have "assess_apiCall env word language userAudioBase64 mimeType (ext s) = (Inr v, x')"
    by (simp add: assess_apiCall_def)
  then show ?thesis
    by (simp add: handleAssessPronunciation_def withRetry_first_success)
qed

text \<open>
  C2 does not hold of the code: the assess-pronunciation handler returns whatever the
  provider's reply parses to. For the reply \<open>{}\<close> it returns the empty object, which has
  neither a score nor a feedback, and the entry point serves it with status 200.
\<close>

theorem handleAssessPronunciation_unvalidated:
  "fst (handleAssessPronunciation (reply_env ''{}'') (Str ''hola'') (Str ''Spanish'')
          (Str ''UklGRg=='') (Str ''audio/webm'') start) = Inr (Obj []) \<and>
   \<not> is_Assessment (Obj []) \<and>
   fst (api (reply_env ''{}'')
         \<lparr>req_method = ''POST'',
          req_json = Inr (Obj [(''action'', Str ''assessPronunciation''),
            (''payload'', Obj [(''word'', Str ''hola''), (''language'', Str ''Spanish''),
               (''userAudioBase64'', Str ''UklGRg==''), (''mimeType'', Str ''audio/webm'')])])\<rparr>
         start)
     = Inr (json_response (Obj []) 200)"
  by code_simp

text \<open>
  C9: a call of the assess-pronunciation handler leaves the cache exactly as it was, and
  neither its result nor what it does to the world outside depends on what the cache
  holds.
\<close>

theorem handleAssessPronunciation_cache_untouched:
  "cache (snd (handleAssessPronunciation env word language userAudioBase64 mimeType s)) = cache s \<and>
   fst (handleAssessPronunciation env word language userAudioBase64 mimeType (s\<lparr>cache := c\<rparr>))
     = fst (handleAssessPronunciation env word language userAudioBase64 mimeType s) \<and>
   ext (snd (handleAssessPronunciation env word language userAudioBase64 mimeType (s\<lparr>cache := c\<rparr>)))
     = ext (snd (handleAssessPronunciation env word language userAudioBase64 mimeType s))"
  by (simp add: handleAssessPronunciation_def split: prod.splits)

subsection \<open>The dispatch entry point\<close>

text \<open>
  C8, as amended: for every request whose method is not \<open>POST\<close>, the entry point answers
  with status 405 and the text body \<open>Method Not Allowed\<close>, whatever the request body is,
  and leaves the state as it was: no handler runs.
\<close>

theorem api_method_not_allowed:
  assumes "req_method req \<noteq> ''POST''"
  shows "api env req s
           = (Inr \<lparr>body = Text ''Method Not Allowed'', status_code = 405, content_type = None\<rparr>, s) \<and>
         api env (req\<lparr>req_json := j\<rparr>) s = api env req s"
  using assms by (simp add: api_def)

theorem api_method_not_allowed_witness:
  "req_method \<lparr>req_method = ''GET'', req_json = Inl (new_Error ''Unexpected end of JSON input'')\<rparr>
     \<noteq> ''POST'' \<and>
   api (reply_env []) \<lparr>req_method = ''GET'', req_json = Inl (new_Error ''Unexpected end of JSON input'')\<rparr> start
     = (Inr \<lparr>body = Text ''Method Not Allowed'', status_code = 405, content_type = None\<rparr>, start)"
proof -
  have h: "req_method \<lparr>req_method = ''GET'', req_json = Inl (new_Error ''Unexpected end of JSON input'')\<rparr>
             \<noteq> ''POST''" by simp
  from api_method_not_allowed [OF h, of "reply_env []" start] h show ?thesis by blast
qed

text \<open>
  C8 as stated fails: the body of the 405 response is not empty.
\<close>

theorem api_method_not_allowed_body:
  "fst (api (reply_env []) \<lparr>req_method = ''GET'', req_json = Inr Null\<rparr> start)
     = Inr \<lparr>body = Text ''Method Not Allowed'', status_code = 405, content_type = None\<rparr> \<and>
   Text ''Method Not Allowed'' \<noteq> Text []"
  by (simp add: api_def)

end
